theory Spec2Isabelle
  imports Complex_Main
begin

section \<open>JavaScript values used by the weather aggregator\<close>

text \<open>
  The server is TypeScript running on Node.js. Numbers are IEEE doubles in the source;
  here a finite number is a rational (\<^typ>\<open>rat\<close>), so \<open>-\<close>, \<open>*\<close>, \<open>/\<close> and \<open><\<close> are
  exact. Every finite double is a rational, and \<open>Math.round\<close>, \<open>Math.abs\<close> and the
  comparisons are exact on doubles; the rounding error of a double subtraction or
  division is not modelled.
\<close>

text \<open>\<open>Math.round(x)\<close>: the nearest integer, a tie going towards \<open>+\<infinity>\<close>.\<close>

definition math_round :: "rat \<Rightarrow> rat" where
  "math_round x = of_int \<lfloor>x + 1 / 2\<rfloor>"

definition is_integer :: "rat \<Rightarrow> bool" where
  "is_integer x = (of_int \<lfloor>x\<rfloor> = x)"

text \<open>
  \<open>String.prototype.toLowerCase\<close>, on ASCII text: the letters \<open>A\<close> to \<open>Z\<close> move to
  \<open>a\<close> to \<open>z\<close>, every other character stays.
\<close>

definition lower_char :: "char \<Rightarrow> char" where
  "lower_char c =
     (let n = (of_char c :: nat) in if 65 \<le> n \<and> n \<le> 90 then char_of (n + 32) else c)"

definition toLowerCase :: "string \<Rightarrow> string" where
  "toLowerCase s = map lower_char s"

fun startsWith :: "string \<Rightarrow> string \<Rightarrow> bool" where
  "startsWith s [] = True"
| "startsWith [] (c # cs) = False"
| "startsWith (x # xs) (c # cs) = (x = c \<and> startsWith xs cs)"

text \<open>\<open>s.includes(search)\<close>: \<open>search\<close> occurs in \<open>s\<close> at some position.\<close>

fun str_includes :: "string \<Rightarrow> string \<Rightarrow> bool" where
  "str_includes [] search = (search = [])"
| "str_includes (x # xs) search = (startsWith (x # xs) search \<or> str_includes xs search)"

text \<open>
  A response of an Express handler: \<open>res.json(body)\<close> is \<open>Ok body\<close>, and
  \<open>res.status(n).json({ message })\<close> is \<open>Status n message\<close>.
\<close>

datatype 'a response = Ok 'a | Status nat string

section \<open>The in-memory storage (\<open>server/storage.ts\<close>)\<close>

text \<open>
  A \<open>Location\<close> of \<open>shared/schema\<close>. \<open>country\<close> and \<open>state\<close> are nullable columns.
  The \<open>id\<close> (a random UUID) and \<open>createdAt\<close> (the clock) that \<open>saveLocation\<close> adds are
  left out: no operation below reads them.
\<close>

record location =
  loc_name :: string
  loc_latitude :: rat
  loc_longitude :: rat
  loc_country :: "string option"
  loc_state :: "string option"

text \<open>
  \<open>MemStorage.locations\<close> is a \<open>Map\<close> keyed by a fresh UUID per save, so no entry is
  ever overwritten and \<open>Array.from(this.locations.values())\<close> is the list of saved
  Locations in insertion order. The store is that list.
\<close>

type_synonym locations = "location list"

definition saveLocation :: "locations \<Rightarrow> location \<Rightarrow> locations" where
  "saveLocation locs loc = locs @ [loc]"



text \<open>\<open>text?.toLowerCase().includes(q)\<close>: \<open>undefined\<close>, which is falsy, when \<open>text\<close> is null.\<close>

definition opt_includes :: "string option \<Rightarrow> string \<Rightarrow> bool" where
  "opt_includes text q = (case text of None \<Rightarrow> False | Some t \<Rightarrow> str_includes (toLowerCase t) q)"

definition searchLocations :: "locations \<Rightarrow> string \<Rightarrow> location list" where
  "searchLocations locs query =
     (let lowercaseQuery = toLowerCase query in
      filter (\<lambda>loc. str_includes (toLowerCase (loc_name loc)) lowercaseQuery \<or>
                    opt_includes (loc_country loc) lowercaseQuery \<or>
                    opt_includes (loc_state loc) lowercaseQuery) locs)"

section \<open>The location search route\<close>

text \<open>
  One entry of the geocoding provider's response, and the Location the handler builds
  from it (\<open>{ name: loc.name, latitude: loc.lat, longitude: loc.lon, ... }\<close>).
\<close>

record geo_entry =
  geo_name :: string
  geo_lat :: rat
  geo_lon :: rat
  geo_country :: "string option"
  geo_state :: "string option"

definition geo_location :: "geo_entry \<Rightarrow> location" where
  "geo_location g =
     \<lparr>loc_name = geo_name g, loc_latitude = geo_lat g, loc_longitude = geo_lon g,
      loc_country = geo_country g, loc_state = geo_state g\<rparr>"

text \<open>
  The geocoding call is the environment: \<open>geocode q\<close> is \<open>None\<close> when \<open>axios.get\<close>
  rejects or the body cannot be mapped (anything the inner \<open>try\<close> block throws), and
  the provider's entries otherwise.

  \<open>resolve\<close> is the inner \<open>try\<close>/\<open>catch\<close> of the handler: the Location Resolver. It
  returns the response and the Location cache after the call.
\<close>

definition resolve ::
  "(string \<Rightarrow> geo_entry list option) \<Rightarrow> locations \<Rightarrow> string \<Rightarrow> location list response \<times> locations"
where
  "resolve geocode locs q =
     (case geocode q of
        Some entries \<Rightarrow>
          (let found = map geo_location entries in (Ok found, foldl saveLocation locs found))
      | None \<Rightarrow> (Ok (searchLocations locs q), locs))"

text \<open>
  The handler of \<open>GET /api/locations/search\<close>. The query parameter \<open>q\<close> is absent
  (\<open>None\<close>) or a string; \<open>!q\<close> holds for an absent and for an empty \<open>q\<close>.
\<close>

definition search_route ::
  "(string \<Rightarrow> geo_entry list option) \<Rightarrow> locations \<Rightarrow> string option \<Rightarrow> location list response \<times> locations"
where
  "search_route geocode locs q_param =
     (case q_param of
        None \<Rightarrow> (Status 400 ''Query parameter 'q' is required'', locs)
      | Some q \<Rightarrow>
          if q = [] then (Status 400 ''Query parameter 'q' is required'', locs)
          else resolve geocode locs q)"

section \<open>The accuracy score (\<open>MemStorage.getWeatherAccuracy\<close>)\<close>

text \<open>
  The values a property read of \<open>accuracyMap\<close> can give. \<open>accuracyMap\<close> is an object
  literal, so \<open>accuracyMap[source]\<close> looks \<open>source\<close> up among its own three properties
  and then along its prototype chain, which is \<open>Object.prototype\<close>: a name such as
  \<open>constructor\<close> or \<open>toString\<close> reads a built-in function, \<open>__proto__\<close> reads
  \<open>Object.prototype\<close> itself, and any name found nowhere reads \<open>undefined\<close>.
  \<open>JFunction f\<close> is the built-in function named \<open>f\<close>.
\<close>

datatype js_value = JUndefined | JNumber rat | JFunction string | JObject string

definition accuracyMap :: "(string \<times> rat) list" where
  "accuracyMap = [(''openweathermap'', 0.94), (''accuweather'', 0.89), (''weatherapi'', 0.87)]"

definition object_prototype :: "(string \<times> js_value) list" where
  "object_prototype =
     [(''constructor'', JFunction ''Object''),
      (''__defineGetter__'', JFunction ''__defineGetter__''),
      (''__defineSetter__'', JFunction ''__defineSetter__''),
      (''hasOwnProperty'', JFunction ''hasOwnProperty''),
      (''__lookupGetter__'', JFunction ''__lookupGetter__''),
      (''__lookupSetter__'', JFunction ''__lookupSetter__''),
      (''isPrototypeOf'', JFunction ''isPrototypeOf''),
      (''propertyIsEnumerable'', JFunction ''propertyIsEnumerable''),
      (''toString'', JFunction ''toString''),
      (''valueOf'', JFunction ''valueOf''),
      (''__proto__'', JObject ''Object.prototype''),
      (''toLocaleString'', JFunction ''toLocaleString'')]"

definition get_property :: "(string \<times> rat) list \<Rightarrow> string \<Rightarrow> js_value" where
  "get_property obj key =
     (case map_of obj key of
        Some v \<Rightarrow> JNumber v
      | None \<Rightarrow> (case map_of object_prototype key of Some v \<Rightarrow> v | None \<Rightarrow> JUndefined))"

text \<open>\<open>a || b\<close>: \<open>a\<close> when \<open>a\<close> is truthy. \<open>undefined\<close> and \<open>0\<close> are falsy.\<close>

fun truthy :: "js_value \<Rightarrow> bool" where
  "truthy JUndefined = False"
| "truthy (JNumber n) = (n \<noteq> 0)"
| "truthy (JFunction f) = True"
| "truthy (JObject ob) = True"

definition js_or :: "js_value \<Rightarrow> js_value \<Rightarrow> js_value" where
  "js_or a b = (if truthy a then a else b)"

definition getWeatherAccuracy :: "string \<Rightarrow> string \<Rightarrow> js_value" where
  "getWeatherAccuracy source location = js_or (get_property accuracyMap source) (JNumber 0.85)"

text \<open>
  \<open>a > b\<close> on these values. Two numbers compare as numbers. A function or an object
  is first converted to a string (its source text, or \<open>[object Object]\<close>): two strings
  compare by code units, and a string or \<open>undefined\<close> against a number converts to
  \<open>NaN\<close>, for which every comparison is false.
\<close>

fun str_less :: "string \<Rightarrow> string \<Rightarrow> bool" where
  "str_less [] [] = False"
| "str_less [] (y # ys) = True"
| "str_less (x # xs) [] = False"
| "str_less (x # xs) (y # ys) =
     ((of_char x :: nat) < of_char y \<or> (x = y \<and> str_less xs ys))"

fun to_primitive_string :: "js_value \<Rightarrow> string option" where
  "to_primitive_string (JFunction f) = Some (''function '' @ f @ ''() { [native code] }'')"
| "to_primitive_string (JObject ob) = Some ''[object Object]''"
| "to_primitive_string v = None"

fun js_gt :: "js_value \<Rightarrow> js_value \<Rightarrow> bool" where
  "js_gt (JNumber a) (JNumber b) = (b < a)"
| "js_gt a b =
     (case (to_primitive_string a, to_primitive_string b) of
        (Some s, Some t) \<Rightarrow> str_less t s
      | _ \<Rightarrow> False)"

section \<open>Weather records\<close>

text \<open>
  A coordinate handed to an adapter is \<open>Number(lat)\<close> of a query parameter: a finite
  number, or \<open>NaN\<close>.
\<close>

datatype js_number = Num rat | NaN

text \<open>
  The labels \<open>time\<close> and \<open>day\<close> are \<open>'Today'\<close> or what \<open>toLocaleTimeString\<close> and
  \<open>toLocaleDateString\<close> print for \<open>new Date(arg)\<close>. The printed text depends on the
  server's time zone, so a label is kept as the date it is printed from.
\<close>

datatype date_arg = Millis rat | DateString string

datatype label = Today | HourOf date_arg | WeekdayOf date_arg

text \<open>An icon identifier is a string for two providers and a number for the third.\<close>

datatype icon = IconName string | IconNumber rat

record current_weather =
  temperature :: rat
  condition :: string
  description :: string
  humidity :: rat
  windSpeed :: rat
  windDirection :: rat
  visibility :: rat
  feelsLike :: rat
  uvIndex :: rat
  pressure :: rat

record hourly_point =
  h_time :: label
  h_temperature :: rat
  h_condition :: string
  h_precipitation :: rat
  h_icon :: icon

record daily_point =
  d_day :: label
  d_condition :: string
  d_description :: string
  highTemp :: rat
  lowTemp :: rat
  d_precipitation :: rat
  d_icon :: icon

text \<open>
  The record an adapter returns. Its field \<open>location\<close>, the display string, is
  \<open>location_name\<close> here.
\<close>

record weather =
  source :: string
  location_name :: string
  latitude :: js_number
  longitude :: js_number
  currentWeather :: current_weather
  hourlyForecast :: "hourly_point list"
  dailyForecast :: "daily_point list"

text \<open>\<open>{ ...weather, accuracy }\<close>: the record with its score attached.\<close>

record scored_weather = weather +
  accuracy :: js_value

section \<open>Provider responses\<close>

text \<open>
  The bodies the three providers answer with, reduced to the fields the adapters read.
  A nested object is flattened into its fields (\<open>current.main.temp\<close> is \<open>oc_temp\<close>);
  an array the adapter indexes is a list, so that reading \<open>[0]\<close> of an empty one is a
  case of the model. The numeric fields are finite numbers. \<open>pop\<close> may be missing.
\<close>

record owm_weather =
  ow_main :: string
  ow_description :: string
  ow_icon :: string

record owm_current =
  oc_name :: string
  oc_sys_country :: string
  oc_temp :: rat
  oc_feels_like :: rat
  oc_humidity :: rat
  oc_pressure :: rat
  oc_weather :: "owm_weather list"
  oc_wind_speed :: rat
  oc_wind_deg :: rat
  oc_visibility :: rat

record owm_item =
  oi_dt :: rat
  oi_temp :: rat
  oi_temp_max :: rat
  oi_temp_min :: rat
  oi_weather :: "owm_weather list"
  oi_pop :: "rat option"

record wa_hour =
  wh_time :: string
  wh_temp_f :: rat
  wh_condition_text :: string
  wh_condition_icon :: string
  wh_chance_of_rain :: rat

record wa_day =
  wd_date :: string
  wd_hour :: "wa_hour list"
  wd_maxtemp_f :: rat
  wd_mintemp_f :: rat
  wd_condition_text :: string
  wd_condition_icon :: string
  wd_daily_chance_of_rain :: rat

record wa_response =
  wa_location_name :: string
  wa_location_country :: string
  wa_temp_f :: rat
  wa_condition_text :: string
  wa_humidity :: rat
  wa_wind_mph :: rat
  wa_wind_degree :: rat
  wa_vis_miles :: rat
  wa_feelslike_f :: rat
  wa_uv :: rat
  wa_pressure_mb :: rat
  wa_forecastday :: "wa_day list"

record accu_location =
  al_Key :: string
  al_LocalizedName :: string
  al_Country_LocalizedName :: string

record accu_current =
  ac_Temperature :: rat
  ac_WeatherText :: string
  ac_RelativeHumidity :: rat
  ac_Wind_Speed :: rat
  ac_Wind_Direction_Degrees :: rat
  ac_Visibility :: rat
  ac_RealFeelTemperature :: rat
  ac_UVIndex :: rat
  ac_Pressure :: rat

record accu_day =
  ad_Date :: string
  ad_IconPhrase :: string
  ad_LongPhrase :: string
  ad_Temperature_Maximum :: rat
  ad_Temperature_Minimum :: rat
  ad_PrecipitationProbability :: rat
  ad_Icon :: rat

text \<open>
  The network is the environment. Each field is one \<open>axios.get\<close> of an adapter, by the
  values its URL is built from; the answer is \<open>None\<close> when the request rejects or the
  body does not have the shape above, which throws inside the adapter.
\<close>

record providers =
  owm_weather_api :: "js_number \<Rightarrow> js_number \<Rightarrow> owm_current option"
  owm_forecast_api :: "js_number \<Rightarrow> js_number \<Rightarrow> owm_item list option"
  weatherapi_forecast_api :: "js_number \<Rightarrow> js_number \<Rightarrow> wa_response option"
  accu_geoposition_api :: "js_number \<Rightarrow> js_number \<Rightarrow> accu_location option"
  accu_currentconditions_api :: "string \<Rightarrow> accu_current list option"
  accu_daily_api :: "string \<Rightarrow> accu_day list option"

section \<open>The provider adapters\<close>

text \<open>
  An adapter returns its record, or \<open>None\<close> when it throws. \<open>xs.map((x, index) => ...)\<close>
  is \<open>map_index\<close>; \<open>xs.filter((_, index) => index % 8 === 0)\<close> is \<open>every_8th\<close>.
\<close>

definition map_index :: "('a \<Rightarrow> nat \<Rightarrow> 'b) \<Rightarrow> 'a list \<Rightarrow> 'b list" where
  "map_index f xs = map (\<lambda>(i, x). f x i) (enumerate 0 xs)"

definition every_8th :: "'a list \<Rightarrow> 'a list" where
  "every_8th xs = map snd (filter (\<lambda>(i, x). i mod 8 = 0) (enumerate 0 xs))"

text \<open>\<open>item.pop || 0\<close>\<close>

definition pop_or_0 :: "rat option \<Rightarrow> rat" where
  "pop_or_0 pop = (case pop of None \<Rightarrow> 0 | Some p \<Rightarrow> if p = 0 then 0 else p)"

definition owm_hourly :: "owm_item \<Rightarrow> hourly_point option" where
  "owm_hourly item =
     (case oi_weather item of
        [] \<Rightarrow> None
      | w # ws \<Rightarrow>
          Some \<lparr>h_time = HourOf (Millis (oi_dt item * 1000)),
                h_temperature = math_round (oi_temp item),
                h_condition = ow_main w,
                h_precipitation = math_round (pop_or_0 (oi_pop item) * 100),
                h_icon = IconName (ow_icon w)\<rparr>)"

definition owm_daily :: "owm_item \<Rightarrow> nat \<Rightarrow> daily_point option" where
  "owm_daily item index =
     (case oi_weather item of
        [] \<Rightarrow> None
      | w # ws \<Rightarrow>
          Some \<lparr>d_day = (if index = 0 then Today else WeekdayOf (Millis (oi_dt item * 1000))),
                d_condition = ow_main w,
                d_description = ow_description w,
                highTemp = math_round (oi_temp_max item),
                lowTemp = math_round (oi_temp_min item),
                d_precipitation = math_round (pop_or_0 (oi_pop item) * 100),
                d_icon = IconName (ow_icon w)\<rparr>)"

definition fetchOpenWeatherMap :: "providers \<Rightarrow> js_number \<Rightarrow> js_number \<Rightarrow> weather option" where
  "fetchOpenWeatherMap net lat lon =
     (case (owm_weather_api net lat lon, owm_forecast_api net lat lon) of
        (Some current, Some forecast) \<Rightarrow>
          (case (oc_weather current,
                 those (map owm_hourly (take 24 forecast)),
                 those (map_index owm_daily (take 10 (every_8th forecast)))) of
             (w # ws, Some hourly, Some daily) \<Rightarrow>
               Some \<lparr>source = ''openweathermap'',
                     location_name = oc_name current @ '', '' @ oc_sys_country current,
                     latitude = lat,
                     longitude = lon,
                     currentWeather =
                       \<lparr>temperature = math_round (oc_temp current),
                        condition = ow_main w,
                        description = ow_description w,
                        humidity = oc_humidity current,
                        windSpeed = math_round (oc_wind_speed current),
                        windDirection = oc_wind_deg current,
                        visibility = math_round ((oc_visibility current / 1609.344) * 10) / 10,
                        feelsLike = math_round (oc_feels_like current),
                        uvIndex = 6,
                        pressure = oc_pressure current\<rparr>,
                     hourlyForecast = hourly,
                     dailyForecast = daily\<rparr>
           | _ \<Rightarrow> None)
      | _ \<Rightarrow> None)"

definition wa_hourly :: "wa_hour \<Rightarrow> hourly_point" where
  "wa_hourly hour =
     \<lparr>h_time = HourOf (DateString (wh_time hour)),
      h_temperature = math_round (wh_temp_f hour),
      h_condition = wh_condition_text hour,
      h_precipitation = wh_chance_of_rain hour,
      h_icon = IconName (wh_condition_icon hour)\<rparr>"

definition wa_daily :: "wa_day \<Rightarrow> nat \<Rightarrow> daily_point" where
  "wa_daily day index =
     \<lparr>d_day = (if index = 0 then Today else WeekdayOf (DateString (wd_date day))),
      d_condition = wd_condition_text day,
      d_description = wd_condition_text day,
      highTemp = math_round (wd_maxtemp_f day),
      lowTemp = math_round (wd_mintemp_f day),
      d_precipitation = wd_daily_chance_of_rain day,
      d_icon = IconName (wd_condition_icon day)\<rparr>"

definition fetchWeatherAPI :: "providers \<Rightarrow> js_number \<Rightarrow> js_number \<Rightarrow> weather option" where
  "fetchWeatherAPI net lat lon =
     (case weatherapi_forecast_api net lat lon of
        None \<Rightarrow> None
      | Some data \<Rightarrow>
          (case wa_forecastday data of
             [] \<Rightarrow> None
           | day0 # days \<Rightarrow>
               Some \<lparr>source = ''weatherapi'',
                     location_name = wa_location_name data @ '', '' @ wa_location_country data,
                     latitude = lat,
                     longitude = lon,
                     currentWeather =
                       \<lparr>temperature = math_round (wa_temp_f data),
                        condition = wa_condition_text data,
                        description = wa_condition_text data,
                        humidity = wa_humidity data,
                        windSpeed = math_round (wa_wind_mph data),
                        windDirection = wa_wind_degree data,
                        visibility = wa_vis_miles data,
                        feelsLike = math_round (wa_feelslike_f data),
                        uvIndex = wa_uv data,
                        pressure = wa_pressure_mb data\<rparr>,
                     hourlyForecast = map wa_hourly (take 24 (wd_hour day0)),
                     dailyForecast = map_index wa_daily (wa_forecastday data)\<rparr>))"

definition accu_daily :: "accu_day \<Rightarrow> nat \<Rightarrow> daily_point" where
  "accu_daily day index =
     \<lparr>d_day = (if index = 0 then Today else WeekdayOf (DateString (ad_Date day))),
      d_condition = ad_IconPhrase day,
      d_description = ad_LongPhrase day,
      highTemp = math_round (ad_Temperature_Maximum day),
      lowTemp = math_round (ad_Temperature_Minimum day),
      d_precipitation = ad_PrecipitationProbability day,
      d_icon = IconNumber (ad_Icon day)\<rparr>"

definition fetchAccuWeather :: "providers \<Rightarrow> js_number \<Rightarrow> js_number \<Rightarrow> weather option" where
  "fetchAccuWeather net lat lon =
     (case accu_geoposition_api net lat lon of
        None \<Rightarrow> None
      | Some locationRes \<Rightarrow>
          (case (accu_currentconditions_api net (al_Key locationRes),
                 accu_daily_api net (al_Key locationRes)) of
             (Some (current # rest), Some forecast) \<Rightarrow>
               Some \<lparr>source = ''accuweather'',
                     location_name =
                       al_LocalizedName locationRes @ '', '' @ al_Country_LocalizedName locationRes,
                     latitude = lat,
                     longitude = lon,
                     currentWeather =
                       \<lparr>temperature = math_round (ac_Temperature current),
                        condition = ac_WeatherText current,
                        description = ac_WeatherText current,
                        humidity = ac_RelativeHumidity current,
                        windSpeed = math_round (ac_Wind_Speed current),
                        windDirection = ac_Wind_Direction_Degrees current,
                        visibility = math_round (ac_Visibility current),
                        feelsLike = math_round (ac_RealFeelTemperature current),
                        uvIndex = ac_UVIndex current,
                        pressure = ac_Pressure current\<rparr>,
                     hourlyForecast = [],
                     dailyForecast = map_index accu_daily forecast\<rparr>
           | _ \<Rightarrow> None))"

section \<open>The weather route\<close>

record params =
  p_lat :: js_number
  p_lon :: js_number
  p_location :: string

text \<open>
  \<open>fetchWeatherFromSource\<close> reads \<open>lat\<close> and \<open>lon\<close> of its parameters only. Whatever
  the adapter throws, and the \<open>Error\<close> of an unknown source, is caught: the result is
  \<open>null\<close>, here \<open>None\<close>.
\<close>

definition fetchWeatherFromSource :: "providers \<Rightarrow> string \<Rightarrow> params \<Rightarrow> weather option" where
  "fetchWeatherFromSource net src ps =
     (if src = ''openweathermap'' then fetchOpenWeatherMap net (p_lat ps) (p_lon ps)
      else if src = ''weatherapi'' then fetchWeatherAPI net (p_lat ps) (p_lon ps)
      else if src = ''accuweather'' then fetchAccuWeather net (p_lat ps) (p_lon ps)
      else None)"

definition weatherSources :: "string list" where
  "weatherSources = [''openweathermap'', ''weatherapi'', ''accuweather'']"

text \<open>
  Every promise of \<open>weatherPromises\<close> fulfils, with a record or with \<open>null\<close>, and
  \<open>Promise.allSettled\<close> keeps the order of \<open>weatherSources\<close>. \<open>successfulResults\<close>
  are the values that are not \<open>null\<close>.
\<close>

definition successfulResults :: "providers \<Rightarrow> params \<Rightarrow> weather list" where
  "successfulResults net ps =
     List.map_filter (\<lambda>src. fetchWeatherFromSource net src ps) weatherSources"

definition with_accuracy :: "weather \<Rightarrow> scored_weather" where
  "with_accuracy w =
     weather.extend w (scored_weather.fields (getWeatherAccuracy (source w) (location_name w)))"

text \<open>
  \<open>xs.reduce((prev, current) => current.accuracy > prev.accuracy ? current : prev)\<close>,
  with no initial value: the first element starts the fold, and an empty array throws.
\<close>

definition more_accurate :: "scored_weather \<Rightarrow> scored_weather \<Rightarrow> scored_weather" where
  "more_accurate prev current = (if js_gt (accuracy current) (accuracy prev) then current else prev)"

definition mostAccurate_of :: "scored_weather list \<Rightarrow> scored_weather option" where
  "mostAccurate_of ws = (case ws of [] \<Rightarrow> None | w # rest \<Rightarrow> Some (foldl more_accurate w rest))"

record payload =
  sources :: "scored_weather list"
  mostAccurate :: scored_weather
  aggregated :: scored_weather

text \<open>
  \<open>aggregate\<close> is the handler of \<open>GET /api/weather\<close> from the fan-out on, for the
  parameters handed to the adapters. \<open>saveWeatherData\<close> appends each scored record to
  a store the response does not read, and a failing save is caught; the store is left
  out. An exception that reaches the outer \<open>catch\<close> is the response 500.
\<close>

definition aggregate :: "providers \<Rightarrow> params \<Rightarrow> payload response" where
  "aggregate net ps =
     (let successful = successfulResults net ps in
      if length successful = 0
      then Status 503 ''Failed to fetch weather data from all sources''
      else
        (let weatherWithAccuracy = map with_accuracy successful in
         case mostAccurate_of weatherWithAccuracy of
           None \<Rightarrow> Status 500 ''Failed to fetch weather data''
         | Some best \<Rightarrow>
             Ok \<lparr>sources = weatherWithAccuracy, mostAccurate = best, aggregated = best\<rparr>))"

text \<open>
  The query of a request: each parameter is absent (\<open>None\<close>) or a string.
  \<open>!x\<close> holds for an absent and for an empty parameter. \<open>Number(undefined)\<close> is
  \<open>NaN\<close>; \<open>Number\<close> of a string is the language's string-to-number conversion, a
  parameter here. \<open>String(undefined)\<close> is the text \<open>undefined\<close>.
\<close>

record query =
  q_lat :: "string option"
  q_lon :: "string option"
  q_location :: "string option"

definition falsy :: "string option \<Rightarrow> bool" where
  "falsy x = (case x of None \<Rightarrow> True | Some s \<Rightarrow> s = [])"

definition to_Number :: "(string \<Rightarrow> js_number) \<Rightarrow> string option \<Rightarrow> js_number" where
  "to_Number string_to_number x = (case x of None \<Rightarrow> NaN | Some s \<Rightarrow> string_to_number s)"

definition to_String :: "string option \<Rightarrow> string" where
  "to_String x = (case x of None \<Rightarrow> ''undefined'' | Some s \<Rightarrow> s)"

definition adapter_params :: "(string \<Rightarrow> js_number) \<Rightarrow> query \<Rightarrow> params" where
  "adapter_params string_to_number q =
     \<lparr>p_lat = to_Number string_to_number (q_lat q),
      p_lon = to_Number string_to_number (q_lon q),
      p_location = to_String (q_location q)\<rparr>"

definition weather_route :: "providers \<Rightarrow> (string \<Rightarrow> js_number) \<Rightarrow> query \<Rightarrow> payload response" where
  "weather_route net string_to_number q =
     (if (falsy (q_lat q) \<or> falsy (q_lon q)) \<and> falsy (q_location q)
      then Status 400 ''Either lat/lon or location is required''
      else aggregate net (adapter_params string_to_number q))"

section \<open>What the specification says of the text search\<close>



text \<open>\<open>y\<close> is \<open>x\<close> rounded to the nearest integer.\<close>

definition nearest_integer :: "rat \<Rightarrow> rat \<Rightarrow> bool" where
  "nearest_integer x y \<longleftrightarrow> is_integer y \<and> \<bar>y - x\<bar> \<le> 1 / 2"

section \<open>Sample data\<close>

definition springfield :: location where
  "springfield =
     \<lparr>loc_name = ''Springfield'', loc_latitude = 39.7817, loc_longitude = -89.6501,
      loc_country = Some ''US'', loc_state = Some ''Illinois''\<rparr>"

definition boston :: location where
  "boston =
     \<lparr>loc_name = ''Boston'', loc_latitude = 42.3601, loc_longitude = -71.0589,
      loc_country = Some ''US'', loc_state = Some ''Massachusetts''\<rparr>"




text \<open>Responses of the three providers for Seattle (47.6062, -122.3321).\<close>

definition seattle :: params where
  "seattle = \<lparr>p_lat = Num 47.6062, p_lon = Num (-122.3321), p_location = ''undefined''\<rparr>"

definition owm_rain :: owm_weather where
  "owm_rain = \<lparr>ow_main = ''Rain'', ow_description = ''light rain'', ow_icon = ''10d''\<rparr>"

definition owm_seattle :: owm_current where
  "owm_seattle =
     \<lparr>oc_name = ''Seattle'', oc_sys_country = ''US'', oc_temp = 51.3, oc_feels_like = 49.6,
      oc_humidity = 81, oc_pressure = 1016, oc_weather = [owm_rain], oc_wind_speed = 7.4,
      oc_wind_deg = 200, oc_visibility = 10000\<rparr>"

definition owm_slot :: owm_item where
  "owm_slot =
     \<lparr>oi_dt = 1730646000, oi_temp = 50.5, oi_temp_max = 52.7, oi_temp_min = 48.2,
      oi_weather = [owm_rain], oi_pop = Some 0.37\<rparr>"

definition owm_dry_slot :: owm_item where
  "owm_dry_slot =
     \<lparr>oi_dt = 1730732400, oi_temp = 47.5, oi_temp_max = 49.1, oi_temp_min = 44.9,
      oi_weather = [owm_rain], oi_pop = None\<rparr>"

definition owm_seattle_forecast :: "owm_item list" where
  "owm_seattle_forecast =
     [owm_slot, owm_slot, owm_slot, owm_slot, owm_slot, owm_slot, owm_slot, owm_slot,
      owm_dry_slot]"

definition wa_noon :: wa_hour where
  "wa_noon =
     \<lparr>wh_time = ''2024-11-03 12:00'', wh_temp_f = 50.4, wh_condition_text = ''Light rain'',
      wh_condition_icon = ''//cdn.weatherapi.com/weather/64x64/day/296.png'',
      wh_chance_of_rain = 71\<rparr>"

definition wa_sunday :: wa_day where
  "wa_sunday =
     \<lparr>wd_date = ''2024-11-03'', wd_hour = [wa_noon, wa_noon], wd_maxtemp_f = 52.2,
      wd_mintemp_f = 46.8, wd_condition_text = ''Moderate rain'',
      wd_condition_icon = ''//cdn.weatherapi.com/weather/64x64/day/302.png'',
      wd_daily_chance_of_rain = 89\<rparr>"

definition wa_seattle :: wa_response where
  "wa_seattle =
     \<lparr>wa_location_name = ''Seattle'', wa_location_country = ''United States of America'',
      wa_temp_f = 50.7, wa_condition_text = ''Light rain'', wa_humidity = 83,
      wa_wind_mph = 6.9, wa_wind_degree = 190, wa_vis_miles = 6.2, wa_feelslike_f = 48.5,
      wa_uv = 1, wa_pressure_mb = 1015, wa_forecastday = [wa_sunday, wa_sunday]\<rparr>"

definition accu_seattle_key :: accu_location where
  "accu_seattle_key =
     \<lparr>al_Key = ''351409'', al_LocalizedName = ''Seattle'',
      al_Country_LocalizedName = ''United States''\<rparr>"

definition accu_seattle :: accu_current where
  "accu_seattle =
     \<lparr>ac_Temperature = 51.5, ac_WeatherText = ''Rain'', ac_RelativeHumidity = 80,
      ac_Wind_Speed = 8.1, ac_Wind_Direction_Degrees = 203, ac_Visibility = 6.4,
      ac_RealFeelTemperature = 47.2, ac_UVIndex = 1, ac_Pressure = 29.98\<rparr>"

definition accu_sunday :: accu_day where
  "accu_sunday =
     \<lparr>ad_Date = ''2024-11-03T07:00:00-08:00'', ad_IconPhrase = ''Rain'',
      ad_LongPhrase = ''Cloudy with periods of rain'', ad_Temperature_Maximum = 52.6,
      ad_Temperature_Minimum = 45.5, ad_PrecipitationProbability = 90, ad_Icon = 18\<rparr>"

text \<open>
  Networks: every provider answering; the third provider down; the first provider
  down; every provider down; and the second provider answering with eleven days.
\<close>

definition all_up :: providers where
  "all_up =
     \<lparr>owm_weather_api = (\<lambda>lat lon. Some owm_seattle),
      owm_forecast_api = (\<lambda>lat lon. Some owm_seattle_forecast),
      weatherapi_forecast_api = (\<lambda>lat lon. Some wa_seattle),
      accu_geoposition_api = (\<lambda>lat lon. Some accu_seattle_key),
      accu_currentconditions_api = (\<lambda>key. Some [accu_seattle]),
      accu_daily_api = (\<lambda>key. Some [accu_sunday, accu_sunday])\<rparr>"

definition accuweather_down :: providers where
  "accuweather_down = all_up\<lparr>accu_geoposition_api := (\<lambda>lat lon. None)\<rparr>"

definition openweathermap_down :: providers where
  "openweathermap_down = all_up\<lparr>owm_forecast_api := (\<lambda>lat lon. None)\<rparr>"

definition all_down :: providers where
  "all_down =
     \<lparr>owm_weather_api = (\<lambda>lat lon. None),
      owm_forecast_api = (\<lambda>lat lon. None),
      weatherapi_forecast_api = (\<lambda>lat lon. None),
      accu_geoposition_api = (\<lambda>lat lon. None),
      accu_currentconditions_api = (\<lambda>key. None),
      accu_daily_api = (\<lambda>key. None)\<rparr>"

definition eleven_days :: providers where
  "eleven_days =
     all_up\<lparr>weatherapi_forecast_api :=
       (\<lambda>lat lon. Some (wa_seattle\<lparr>wa_forecastday := replicate 11 wa_sunday\<rparr>))\<rparr>"

text \<open>
  Scored records for the selector, with scores chosen so that the last two of three
  records share the highest one.
\<close>

definition scored_sample :: "string \<Rightarrow> rat \<Rightarrow> scored_weather" where
  "scored_sample src a =
     \<lparr>source = src, location_name = ''Seattle, US'', latitude = Num 47.6062,
      longitude = Num (-122.3321),
      currentWeather =
        \<lparr>temperature = 51, condition = ''Rain'', description = ''light rain'', humidity = 81,
         windSpeed = 7, windDirection = 200, visibility = 6.2, feelsLike = 50, uvIndex = 6,
         pressure = 1016\<rparr>,
      hourlyForecast = [], dailyForecast = [], accuracy = JNumber a\<rparr>"

definition tied_scores :: "scored_weather list" where
  "tied_scores =
     [scored_sample ''openweathermap'' 0.87, scored_sample ''weatherapi'' 0.94,
      scored_sample ''accuweather'' 0.94]"

section \<open>Properties of the storage and of the search route\<close>




subsection \<open>The text search finds the case-insensitive substrings\<close>








lemma startsWith_Nil: "startsWith s []"
  by (cases s) auto

lemma str_includes_Nil: "str_includes s []"
  by (cases s) (auto simp: startsWith_Nil)

lemma searchLocations_empty_query: "searchLocations locs [] = locs"
  by (simp add: searchLocations_def toLowerCase_def str_includes_Nil)

text \<open>
  The handler of the search endpoint answers 400 to an empty \<open>q\<close> before the geocoder
  or the cache is consulted: an empty text reaches \<open>resolve\<close> only from another caller.
\<close>

lemma search_route_empty_query:
  "search_route geocode locs (Some []) = (Status 400 ''Query parameter 'q' is required'', locs)"
  by (simp add: search_route_def)

text \<open>
  C10. For every cache state the text search of the empty string returns every cached
  Location, since the empty string occurs in every name; so \<open>resolve\<close> of the empty
  text, on the fallback path, answers with the whole cache and not with an empty
  sequence.
\<close>

theorem empty_query_matches_all:
  "searchLocations locs '''' = locs \<and>
   (geocode '''' = None \<longrightarrow> resolve geocode locs '''' = (Ok locs, locs))"
  by (simp add: resolve_def searchLocations_empty_query)

theorem empty_query_matches_all_witness:
  "searchLocations [springfield, boston] '''' = [springfield, boston] \<and>
   resolve (\<lambda>q. None) [springfield, boston] '''' = (Ok [springfield, boston], [springfield, boston])"
  using empty_query_matches_all [where geocode = "\<lambda>q. None" and locs = "[springfield, boston]"]
  by simp

section \<open>The accuracy score\<close>

text \<open>
  The three providers have their table values, and a source that is neither a provider
  nor a name inherited from \<open>Object.prototype\<close> has the baseline 0.85.
\<close>

lemma getWeatherAccuracy_known:
  "getWeatherAccuracy ''openweathermap'' l = JNumber 0.94 \<and>
   getWeatherAccuracy ''weatherapi'' l = JNumber 0.87 \<and>
   getWeatherAccuracy ''accuweather'' l = JNumber 0.89"
  by (simp add: getWeatherAccuracy_def get_property_def accuracyMap_def js_or_def)

lemma getWeatherAccuracy_fallback:
  assumes "src \<notin> fst ` set accuracyMap" and "src \<notin> fst ` set object_prototype"
  shows "getWeatherAccuracy src l = JNumber 0.85"
proof -
  have "map_of accuracyMap src = None" "map_of object_prototype src = None"
    using assms by (simp_all add: map_of_eq_None_iff)
  then show ?thesis
    by (simp add: getWeatherAccuracy_def get_property_def js_or_def)
qed

text \<open>
  C3. The score is not the baseline for every unrecognised source: a source string that
  names a property inherited from \<open>Object.prototype\<close> reads that property, which is
  truthy, so \<open>|| 0.85\<close> does not apply and the result is a function, not a number.
\<close>

theorem getWeatherAccuracy_inherited_name:
  "getWeatherAccuracy ''constructor'' l = JFunction ''Object'' \<and>
   getWeatherAccuracy ''toString'' l = JFunction ''toString'' \<and>
   getWeatherAccuracy ''__proto__'' l = JObject ''Object.prototype'' \<and>
   getWeatherAccuracy ''constructor'' l \<noteq> JNumber 0.85"
  by (simp add: getWeatherAccuracy_def get_property_def accuracyMap_def object_prototype_def
      js_or_def)

section \<open>The selector\<close>

lemma foldl_more_accurate:
  assumes "\<forall>w \<in> set (w0 # rest). accuracy w = JNumber (sc w)"
  shows "\<exists>i < length (w0 # rest). foldl more_accurate w0 rest = (w0 # rest) ! i \<and>
           (\<forall>j < length (w0 # rest). sc ((w0 # rest) ! j) \<le> sc ((w0 # rest) ! i)) \<and>
           (\<forall>j < i. sc ((w0 # rest) ! j) < sc ((w0 # rest) ! i))"
  using assms
proof (induction rest rule: rev_induct)
  case Nil
  then show ?case by simp
next
  case (snoc x xs)
  let ?ws = "w0 # xs"
  from snoc.prems have prem: "\<forall>w \<in> set ?ws. accuracy w = JNumber (sc w)" by simp
  from snoc.prems have ax: "accuracy x = JNumber (sc x)" by simp
  from snoc.IH [OF prem] obtain i where i: "i < length ?ws"
    and best: "foldl more_accurate w0 xs = ?ws ! i"
    and mx: "\<forall>j < length ?ws. sc (?ws ! j) \<le> sc (?ws ! i)"
    and fst: "\<forall>j < i. sc (?ws ! j) < sc (?ws ! i)" by blast
  have ai: "accuracy (?ws ! i) = JNumber (sc (?ws ! i))"
    using prem i by (metis nth_mem)
  have nth_old: "(w0 # xs @ [x]) ! j = ?ws ! j" if "j < length ?ws" for j
    using that by (metis append_Cons nth_append)
  have nth_new: "(w0 # xs @ [x]) ! length ?ws = x"
    by (metis append_Cons nth_append_length)
  show ?case
  proof (cases "sc (?ws ! i) < sc x")
    case True
    then have r: "foldl more_accurate w0 (xs @ [x]) = x"
      by (simp add: best more_accurate_def ax ai del: nth_Cons_Suc)
    have "\<forall>j < length (w0 # xs @ [x]). sc ((w0 # xs @ [x]) ! j) \<le> sc x"
    proof (intro allI impI)
      fix j assume "j < length (w0 # xs @ [x])"
      then consider "j < length ?ws" | "j = length ?ws" by fastforce
      then show "sc ((w0 # xs @ [x]) ! j) \<le> sc x"
      proof cases
        case 1
        then show ?thesis using mx True nth_old[OF 1] by (metis less_le_trans less_imp_le order.strict_trans1)
      next
        case 2
        then show ?thesis using nth_new by simp
      qed
    qed
    moreover have "\<forall>j < length ?ws. sc ((w0 # xs @ [x]) ! j) < sc x"
      using mx True nth_old by (metis order.strict_trans1)
    ultimately show ?thesis
      using r nth_new by (intro exI[of _ "length ?ws"]) (simp del: nth_Cons_Suc)
  next
    case False
    then have r: "foldl more_accurate w0 (xs @ [x]) = ?ws ! i"
      by (simp add: best more_accurate_def ax ai del: nth_Cons_Suc)
    have "\<forall>j < length (w0 # xs @ [x]). sc ((w0 # xs @ [x]) ! j) \<le> sc (?ws ! i)"
    proof (intro allI impI)
      fix j assume "j < length (w0 # xs @ [x])"
      then consider "j < length ?ws" | "j = length ?ws" by fastforce
      then show "sc ((w0 # xs @ [x]) ! j) \<le> sc (?ws ! i)"
      proof cases
        case 1
        then show ?thesis using mx nth_old[OF 1] by simp
      next
        case 2
        then show ?thesis using nth_new False by simp
      qed
    qed
    moreover have "\<forall>j < i. sc ((w0 # xs @ [x]) ! j) < sc (?ws ! i)"
      using fst i nth_old by (metis less_trans)
    moreover have "(w0 # xs @ [x]) ! i = ?ws ! i" using nth_old i by blast
    ultimately show ?thesis
      using r i by (intro exI[of _ i]) (simp del: nth_Cons_Suc)
  qed
qed


lemma mostAccurate_first_max:
  assumes "ws \<noteq> []" and "map accuracy ws = map JNumber scores"
  shows "\<exists>i < length ws. mostAccurate_of ws = Some (ws ! i) \<and>
           (\<forall>j < length ws. scores ! j \<le> scores ! i) \<and>
           (\<forall>j < i. scores ! j < scores ! i)"
proof -
  from assms(1) obtain w0 rest where ws: "ws = w0 # rest" by (cases ws) auto
  define sc where "sc w = (case accuracy w of JNumber a \<Rightarrow> a | _ \<Rightarrow> 0)" for w :: scored_weather
  have len: "length scores = length ws" using assms(2) by (metis length_map)
  have nth: "accuracy (ws ! j) = JNumber (scores ! j)" if "j < length ws" for j
    using assms(2) that len by (metis nth_map)
  then have scn: "sc (ws ! j) = scores ! j" if "j < length ws" for j
    using that by (simp add: sc_def)
  have "\<forall>w \<in> set (w0 # rest). accuracy w = JNumber (sc w)"
    using nth scn unfolding ws [symmetric] by (metis in_set_conv_nth)
  from foldl_more_accurate [OF this] obtain i where i: "i < length ws"
    and best: "foldl more_accurate w0 rest = ws ! i"
    and mx: "\<forall>j < length ws. sc (ws ! j) \<le> sc (ws ! i)"
    and fst: "\<forall>j < i. sc (ws ! j) < sc (ws ! i)"
    unfolding ws [symmetric] by blast
  have "mostAccurate_of ws = Some (ws ! i)" using best by (simp add: mostAccurate_of_def ws)
  moreover have "\<forall>j < length ws. scores ! j \<le> scores ! i" using mx scn i by simp
  moreover have "\<forall>j < i. scores ! j < scores ! i" using fst scn i by simp
  ultimately show ?thesis using i by blast
qed

text \<open>
  C4. For a non-empty sequence of records with numeric scores, the selected record is the
  first one, in the order of the sequence, whose score is the maximum: every score is at
  most its score, and every record before it has a strictly smaller score. The selection
  is a function of the sequence, so it is the same on every run. The sequence handed to
  the selector keeps the order in which the adapters were invoked
  (lemma \<open>successfulResults_order\<close>).
\<close>

theorem mostAccurate_first_maximum:
  assumes "ws \<noteq> []" and "map accuracy ws = map JNumber scores"
  shows "\<exists>i < length ws. mostAccurate_of ws = Some (ws ! i) \<and>
           (\<forall>j < length ws. scores ! j \<le> scores ! i) \<and>
           (\<forall>j < i. scores ! j < scores ! i)"
  using assms by (rule mostAccurate_first_max)

text \<open>
  A tie: the second and the third record share the highest score, and the second, which
  comes first, is selected.
\<close>

theorem mostAccurate_first_maximum_witness:
  "tied_scores \<noteq> [] \<and>
   map accuracy tied_scores = map JNumber [0.87, 0.94, 0.94] \<and>
   map source tied_scores = [''openweathermap'', ''weatherapi'', ''accuweather''] \<and>
   map_option source (mostAccurate_of tied_scores) = Some ''weatherapi''"
proof -
  have ne: "tied_scores \<noteq> []"
    by (simp add: tied_scores_def)
  have sc: "map accuracy tied_scores = map JNumber [0.87, 0.94, 0.94]"
    by (simp add: tied_scores_def scored_sample_def)
  from mostAccurate_first_maximum [OF ne sc] obtain i
    where i: "i < length tied_scores"
      and best: "mostAccurate_of tied_scores = Some (tied_scores ! i)"
      and mx: "\<forall>j < length tied_scores. [0.87, 0.94, 0.94] ! j \<le> ([0.87, 0.94, 0.94] ! i :: rat)"
      and first: "\<forall>j < i. [0.87, 0.94, 0.94] ! j < ([0.87, 0.94, 0.94] ! i :: rat)"
    by blast
  from i have "i = 0 \<or> i = 1 \<or> i = 2"
    by (auto simp: tied_scores_def)
  moreover have "i \<noteq> 0"
  proof
    assume "i = 0"
    with mx [rule_format, of 1] show False by (simp add: tied_scores_def)
  qed
  moreover have "i \<noteq> 2"
  proof
    assume "i = 2"
    with first [rule_format, of 1] show False by simp
  qed
  ultimately have "i = 1" by blast
  with best have "map_option source (mostAccurate_of tied_scores) = Some ''weatherapi''"
    by (simp add: tied_scores_def scored_sample_def)
  with ne sc show ?thesis
    by (simp add: tied_scores_def scored_sample_def)
qed

section \<open>The fan-out\<close>

lemma mostAccurate_of_mem: "mostAccurate_of ws = Some b \<Longrightarrow> b \<in> set ws"
proof -
  have "foldl more_accurate w rest \<in> set (w # rest)" for w rest
    by (induction rest arbitrary: w rule: rev_induct) (auto simp: more_accurate_def)
  then show "mostAccurate_of ws = Some b \<Longrightarrow> b \<in> set ws"
    by (auto simp: mostAccurate_of_def split: list.splits)
qed

lemma fetchOpenWeatherMap_source: "fetchOpenWeatherMap net lat lon = Some w \<Longrightarrow> source w = ''openweathermap''"
  by (auto simp: fetchOpenWeatherMap_def split: option.splits list.splits prod.splits)

lemma fetchWeatherAPI_source: "fetchWeatherAPI net lat lon = Some w \<Longrightarrow> source w = ''weatherapi''"
  by (auto simp: fetchWeatherAPI_def split: option.splits list.splits)

lemma fetchAccuWeather_source: "fetchAccuWeather net lat lon = Some w \<Longrightarrow> source w = ''accuweather''"
  by (auto simp: fetchAccuWeather_def split: option.splits list.splits prod.splits)

lemma fetchWeatherFromSource_source:
  "fetchWeatherFromSource net src ps = Some w \<Longrightarrow> source w = src \<and> src \<in> set weatherSources"
  by (auto simp: fetchWeatherFromSource_def weatherSources_def split: if_splits
      dest: fetchOpenWeatherMap_source fetchWeatherAPI_source fetchAccuWeather_source)

lemma set_map_filter: "set (List.map_filter f xs) = {y. \<exists>x \<in> set xs. f x = Some y}"
  by (induction xs) (auto simp: map_filter_simps split: option.splits)

lemma set_successfulResults:
  "set (successfulResults net ps) =
     {w. \<exists>src \<in> set weatherSources. fetchWeatherFromSource net src ps = Some w}"
  by (simp add: successfulResults_def set_map_filter)

lemma successfulResults_accuracy:
  assumes "w \<in> set (successfulResults net ps)"
  shows "accuracy (with_accuracy w) \<in> {JNumber 0.94, JNumber 0.87, JNumber 0.89}"
proof -
  from assms obtain src where "fetchWeatherFromSource net src ps = Some w"
    by (auto simp: set_successfulResults)
  then have "source w \<in> set weatherSources"
    using fetchWeatherFromSource_source by blast
  then show ?thesis
    by (auto simp: with_accuracy_def weather.extend_def scored_weather.fields_def weatherSources_def getWeatherAccuracy_known)
qed

lemma truncate_with_accuracy: "weather.truncate (with_accuracy w) = w"
  by (simp add: with_accuracy_def weather.extend_def weather.truncate_def)

text \<open>
  C1. When at least one adapter returns a record, \<open>aggregate\<close> answers \<open>Ok\<close>: its
  \<open>sources\<close> are not empty and are exactly the records the adapters returned, each
  with its score attached, and \<open>mostAccurate\<close> is one of \<open>sources\<close> whose score is at
  least the score of every one of them.
\<close>

theorem aggregate_success:
  assumes "\<exists>src \<in> set weatherSources. fetchWeatherFromSource net src ps \<noteq> None"
  shows "\<exists>p. aggregate net ps = Ok p \<and>
           sources p \<noteq> [] \<and>
           map weather.truncate (sources p) = successfulResults net ps \<and>
           set (successfulResults net ps) =
             {w. \<exists>src \<in> set weatherSources. fetchWeatherFromSource net src ps = Some w} \<and>
           mostAccurate p \<in> set (sources p) \<and>
           (\<forall>w \<in> set (sources p). \<exists>a b. accuracy w = JNumber a \<and>
               accuracy (mostAccurate p) = JNumber b \<and> a \<le> b)"
proof -
  let ?ok = "successfulResults net ps"
  let ?ws = "map with_accuracy ?ok"
  from assms obtain src w0 where "src \<in> set weatherSources"
    and "fetchWeatherFromSource net src ps = Some w0" by auto
  then have "w0 \<in> set ?ok" unfolding set_successfulResults by blast
  then have ne: "?ok \<noteq> []" by auto
  then have wne: "?ws \<noteq> []" by simp
  have num: "\<exists>a. accuracy w = JNumber a" if "w \<in> set ?ws" for w
  proof -
    from that obtain v where v: "v \<in> set ?ok" and w: "w = with_accuracy v" by auto
    from successfulResults_accuracy [OF v] show ?thesis unfolding w by auto
  qed
  define scores where "scores = map (\<lambda>w. case accuracy w of JNumber a \<Rightarrow> a | _ \<Rightarrow> 0) ?ws"
  have "accuracy w = JNumber (case accuracy w of JNumber a \<Rightarrow> a | _ \<Rightarrow> 0)" if "w \<in> set ?ws" for w
    using num [OF that] by auto
  then have sc: "map accuracy ?ws = map JNumber scores"
    unfolding scores_def map_map comp_def by (intro map_cong [OF refl]) auto
  from mostAccurate_first_max [OF wne sc] obtain i where i: "i < length ?ws"
    and best: "mostAccurate_of ?ws = Some (?ws ! i)"
    and mx: "\<forall>j < length ?ws. scores ! j \<le> scores ! i" by blast
  let ?p = "\<lparr>sources = ?ws, mostAccurate = ?ws ! i, aggregated = ?ws ! i\<rparr>"
  have agg: "aggregate net ps = Ok ?p"
    using ne best by (simp add: aggregate_def Let_def)
  have acc: "accuracy (?ws ! j) = JNumber (scores ! j)" if "j < length ?ws" for j
    using sc that by (metis length_map nth_map)
  have "\<forall>w \<in> set ?ws. \<exists>a b. accuracy w = JNumber a \<and> accuracy (?ws ! i) = JNumber b \<and> a \<le> b"
  proof
    fix w assume "w \<in> set ?ws"
    then obtain j where j: "j < length ?ws" and w: "w = ?ws ! j" by (metis in_set_conv_nth)
    show "\<exists>a b. accuracy w = JNumber a \<and> accuracy (?ws ! i) = JNumber b \<and> a \<le> b"
      using acc [OF j] acc [OF i] mx j w by blast
  qed
  moreover have "map weather.truncate ?ws = ?ok"
    by (simp add: truncate_with_accuracy comp_def)
  moreover have "?ws ! i \<in> set ?ws" using i by (metis nth_mem)
  ultimately show ?thesis
    using agg wne set_successfulResults [of net ps] by (intro exI [of _ ?p]) simp
qed


lemma map_filter_source:
  "(\<And>x y. x \<in> set xs \<Longrightarrow> f x = Some y \<Longrightarrow> g y = x) \<Longrightarrow>
     map g (List.map_filter f xs) = filter (\<lambda>x. f x \<noteq> None) xs"
  by (induction xs) (auto simp: map_filter_simps split: option.splits)

lemma successfulResults_order:
  "map source (successfulResults net ps) =
     filter (\<lambda>src. fetchWeatherFromSource net src ps \<noteq> None) weatherSources"
  unfolding successfulResults_def
  by (rule map_filter_source) (use fetchWeatherFromSource_source in blast)

lemma mostAccurate_of_nonempty: "ws \<noteq> [] \<Longrightarrow> \<exists>b. mostAccurate_of ws = Some b"
  by (cases ws) (simp_all add: mostAccurate_of_def)

lemma successfulResults_Nil:
  "successfulResults net ps = [] \<longleftrightarrow>
     (\<forall>src \<in> set weatherSources. fetchWeatherFromSource net src ps = None)"
proof -
  have "successfulResults net ps = [] \<longleftrightarrow> set (successfulResults net ps) = {}" by simp
  also have "\<dots> \<longleftrightarrow> (\<forall>src \<in> set weatherSources. fetchWeatherFromSource net src ps = None)"
    unfolding set_successfulResults by auto (meson option.exhaust)
  finally show ?thesis .
qed

text \<open>
  C2. \<open>aggregate\<close> answers 503, the service-unavailable response, exactly when the
  count of successful adapter records is zero, that is when every adapter failed. Every
  other answer is a success with a non-empty \<open>sources\<close> and a \<open>mostAccurate\<close> taken
  from it; the generic 500 is never the answer. As soon as one adapter returns a record
  the answer is a success, whatever the other adapters did.
\<close>

theorem aggregate_unavailable:
  "(case aggregate net ps of
      Ok p \<Rightarrow> successfulResults net ps \<noteq> [] \<and> sources p \<noteq> [] \<and> mostAccurate p \<in> set (sources p)
    | Status code message \<Rightarrow> code = 503 \<and> length (successfulResults net ps) = 0) \<and>
   (length (successfulResults net ps) = 0 \<longleftrightarrow>
      (\<forall>src \<in> set weatherSources. fetchWeatherFromSource net src ps = None)) \<and>
   ((\<exists>src \<in> set weatherSources. fetchWeatherFromSource net src ps \<noteq> None) \<longrightarrow>
      (\<exists>p. aggregate net ps = Ok p))"
proof (cases "successfulResults net ps = []")
  case True
  then show ?thesis
    using successfulResults_Nil [of net ps] by (simp add: aggregate_def)
next
  case False
  then obtain b where b: "mostAccurate_of (map with_accuracy (successfulResults net ps)) = Some b"
    using mostAccurate_of_nonempty [of "map with_accuracy (successfulResults net ps)"] by auto
  then have "b \<in> set (map with_accuracy (successfulResults net ps))"
    by (rule mostAccurate_of_mem)
  with False b show ?thesis
    using successfulResults_Nil [of net ps] by (simp add: aggregate_def Let_def)
qed


section \<open>The request parameters\<close>

text \<open>The text of \<open>location\<close> has no part in the answer.\<close>

lemma fetchWeatherFromSource_ignores_location:
  "fetchWeatherFromSource net src \<lparr>p_lat = lat, p_lon = lon, p_location = s\<rparr> =
   fetchWeatherFromSource net src \<lparr>p_lat = lat, p_lon = lon, p_location = t\<rparr>"
  by (simp add: fetchWeatherFromSource_def)

lemma aggregate_ignores_location:
  "aggregate net \<lparr>p_lat = lat, p_lon = lon, p_location = s\<rparr> =
   aggregate net \<lparr>p_lat = lat, p_lon = lon, p_location = t\<rparr>"
proof -
  have "successfulResults net \<lparr>p_lat = lat, p_lon = lon, p_location = s\<rparr> =
        successfulResults net \<lparr>p_lat = lat, p_lon = lon, p_location = t\<rparr>"
    unfolding successfulResults_def
    by (subst fetchWeatherFromSource_ignores_location [of net _ lat lon s t]) (rule refl)
  then show ?thesis by (simp add: aggregate_def)
qed

text \<open>
  C5. A request with a free-text \<open>location\<close> and no coordinates passes the guard of the
  handler. No Location Resolver runs: the adapters are invoked with \<open>Number(undefined)\<close>,
  which is \<open>NaN\<close>, for both coordinates, and the \<open>location\<close> text is not read, so two
  different places get the same answer.
\<close>

theorem weather_route_location_only:
  "adapter_params string_to_number
     \<lparr>q_lat = None, q_lon = None, q_location = Some ''Seattle''\<rparr> =
     \<lparr>p_lat = NaN, p_lon = NaN, p_location = ''Seattle''\<rparr> \<and>
   weather_route net string_to_number
     \<lparr>q_lat = None, q_lon = None, q_location = Some ''Seattle''\<rparr> =
     aggregate net \<lparr>p_lat = NaN, p_lon = NaN, p_location = ''Seattle''\<rparr> \<and>
   weather_route net string_to_number
     \<lparr>q_lat = None, q_lon = None, q_location = Some ''Seattle''\<rparr> =
   weather_route net string_to_number
     \<lparr>q_lat = None, q_lon = None, q_location = Some ''Honolulu''\<rparr>"
  by (simp add: weather_route_def adapter_params_def falsy_def to_Number_def to_String_def
      aggregate_ignores_location [of net NaN NaN "''Seattle''" "''Honolulu''"])

section \<open>The adapters\<close>

lemma is_integer_of_int: "is_integer (of_int k)"
  by (simp add: is_integer_def)

lemma nearest_integer_math_round: "nearest_integer x (math_round x)"
proof -
  have "of_int \<lfloor>x + 1 / 2\<rfloor> \<le> x + 1 / 2" by (rule of_int_floor_le)
  moreover have "x + 1 / 2 < of_int \<lfloor>x + 1 / 2\<rfloor> + 1"
    using floor_correct [of "x + 1 / 2"] by simp
  ultimately have "\<bar>of_int \<lfloor>x + 1 / 2\<rfloor> - x\<bar> \<le> 1 / 2" by linarith
  then show ?thesis by (simp add: nearest_integer_def math_round_def is_integer_of_int)
qed

lemma is_integer_math_round: "is_integer (math_round x)"
  by (simp add: math_round_def is_integer_of_int)

lemma those_map_all2:
  "those (map f xs) = Some ys \<Longrightarrow> list_all2 (\<lambda>x y. f x = Some y) xs ys"
  by (induction xs arbitrary: ys) (auto split: option.splits)

lemma those_map_index_all2:
  assumes "those (map_index f xs) = Some ys"
  shows "list_all2 (\<lambda>x y. \<exists>i. f x i = Some y) xs ys"
proof -
  from assms have "list_all2 (\<lambda>z y. (case z of (i, x) \<Rightarrow> f x i) = Some y) (enumerate 0 xs) ys"
    unfolding map_index_def by (rule those_map_all2)
  then have "list_all2 (\<lambda>z y. \<exists>i. f (snd z) i = Some y) (enumerate 0 xs) ys"
    by (rule list_all2_mono) auto
  then have "list_all2 (\<lambda>x y. \<exists>i. f x i = Some y) (map snd (enumerate 0 xs)) ys"
    by (simp only: list_all2_map1)
  then show ?thesis by (simp only: map_snd_enumerate)
qed

lemma map_index_all2: "list_all2 (\<lambda>x y. \<exists>i. y = f x i) xs (map_index f xs)"
proof -
  have "list_all2 (\<lambda>z y. y = (case z of (i, x) \<Rightarrow> f x i)) (enumerate 0 xs) (map_index f xs)"
    unfolding map_index_def by (simp add: list_all2_map2 list_all2_same)
  then have "list_all2 (\<lambda>z y. \<exists>i. y = f (snd z) i) (enumerate 0 xs) (map_index f xs)"
    by (rule list_all2_mono) auto
  then have "list_all2 (\<lambda>x y. \<exists>i. y = f x i) (map snd (enumerate 0 xs)) (map_index f xs)"
    by (simp only: list_all2_map1)
  then show ?thesis by (simp only: map_snd_enumerate)
qed

lemma length_map_index: "length (map_index f xs) = length xs"
  by (simp add: map_index_def)

lemma owm_hourly_Some:
  "owm_hourly item = Some h \<Longrightarrow>
     h_temperature h = math_round (oi_temp item) \<and>
     h_precipitation h = math_round (pop_or_0 (oi_pop item) * 100)"
  by (cases "oi_weather item") (auto simp: owm_hourly_def)

lemma owm_daily_Some:
  "owm_daily item i = Some d \<Longrightarrow>
     highTemp d = math_round (oi_temp_max item) \<and>
     lowTemp d = math_round (oi_temp_min item) \<and>
     d_precipitation d = math_round (pop_or_0 (oi_pop item) * 100)"
  by (cases "oi_weather item") (auto simp: owm_daily_def)

lemma owm_rounding:
  assumes "fetchOpenWeatherMap net lat lon = Some w"
  shows "\<exists>current forecast.
      owm_weather_api net lat lon = Some current \<and> owm_forecast_api net lat lon = Some forecast \<and>
      nearest_integer (oc_temp current) (temperature (currentWeather w)) \<and>
      nearest_integer (oc_feels_like current) (feelsLike (currentWeather w)) \<and>
      nearest_integer (oc_wind_speed current) (windSpeed (currentWeather w)) \<and>
      nearest_integer (oc_visibility current / 1609.344 * 10) (visibility (currentWeather w) * 10) \<and>
      pressure (currentWeather w) = oc_pressure current \<and>
      list_all2 (\<lambda>item h. nearest_integer (oi_temp item) (h_temperature h) \<and>
                   is_integer (h_precipitation h))
        (take 24 forecast) (hourlyForecast w) \<and>
      list_all2 (\<lambda>item d. nearest_integer (oi_temp_max item) (highTemp d) \<and>
                   nearest_integer (oi_temp_min item) (lowTemp d) \<and>
                   is_integer (d_precipitation d))
        (take 10 (every_8th forecast)) (dailyForecast w)"
proof -
  from assms obtain current forecast hourly daily where
    c: "owm_weather_api net lat lon = Some current" and
    f: "owm_forecast_api net lat lon = Some forecast" and
    h: "those (map owm_hourly (take 24 forecast)) = Some hourly" and
    d: "those (map_index owm_daily (take 10 (every_8th forecast))) = Some daily" and
    t: "temperature (currentWeather w) = math_round (oc_temp current)" and
    fl: "feelsLike (currentWeather w) = math_round (oc_feels_like current)" and
    ws: "windSpeed (currentWeather w) = math_round (oc_wind_speed current)" and
    v: "visibility (currentWeather w) = math_round ((oc_visibility current / 1609.344) * 10) / 10" and
    p: "pressure (currentWeather w) = oc_pressure current" and
    hw: "hourlyForecast w = hourly" and dw: "dailyForecast w = daily"
    by (auto simp: fetchOpenWeatherMap_def split: option.splits list.splits prod.splits)
  have "list_all2 (\<lambda>item h. owm_hourly item = Some h) (take 24 forecast) hourly"
    using h by (rule those_map_all2)
  then have H: "list_all2 (\<lambda>item h. nearest_integer (oi_temp item) (h_temperature h) \<and>
                   is_integer (h_precipitation h)) (take 24 forecast) hourly"
    by (rule list_all2_mono)
      (auto simp: nearest_integer_math_round is_integer_math_round dest!: owm_hourly_Some)
  have "list_all2 (\<lambda>item d. \<exists>i. owm_daily item i = Some d) (take 10 (every_8th forecast)) daily"
    using d by (rule those_map_index_all2)
  then have D: "list_all2 (\<lambda>item d. nearest_integer (oi_temp_max item) (highTemp d) \<and>
                   nearest_integer (oi_temp_min item) (lowTemp d) \<and>
                   is_integer (d_precipitation d)) (take 10 (every_8th forecast)) daily"
    by (rule list_all2_mono)
      (auto simp: nearest_integer_math_round is_integer_math_round dest!: owm_daily_Some)
  show ?thesis
    using c f H D by (simp add: t fl ws v p hw dw nearest_integer_math_round)
qed

lemma weatherapi_rounding:
  assumes "fetchWeatherAPI net lat lon = Some w"
  shows "\<exists>data day0 days.
      weatherapi_forecast_api net lat lon = Some data \<and> wa_forecastday data = day0 # days \<and>
      nearest_integer (wa_temp_f data) (temperature (currentWeather w)) \<and>
      nearest_integer (wa_feelslike_f data) (feelsLike (currentWeather w)) \<and>
      nearest_integer (wa_wind_mph data) (windSpeed (currentWeather w)) \<and>
      visibility (currentWeather w) = wa_vis_miles data \<and>
      pressure (currentWeather w) = wa_pressure_mb data \<and>
      list_all2 (\<lambda>hour h. nearest_integer (wh_temp_f hour) (h_temperature h) \<and>
                   h_precipitation h = wh_chance_of_rain hour)
        (take 24 (wd_hour day0)) (hourlyForecast w) \<and>
      list_all2 (\<lambda>day d. nearest_integer (wd_maxtemp_f day) (highTemp d) \<and>
                   nearest_integer (wd_mintemp_f day) (lowTemp d) \<and>
                   d_precipitation d = wd_daily_chance_of_rain day)
        (wa_forecastday data) (dailyForecast w)"
proof -
  from assms obtain data day0 days where
    a: "weatherapi_forecast_api net lat lon = Some data" and
    fd: "wa_forecastday data = day0 # days" and
    t: "temperature (currentWeather w) = math_round (wa_temp_f data)" and
    fl: "feelsLike (currentWeather w) = math_round (wa_feelslike_f data)" and
    ws: "windSpeed (currentWeather w) = math_round (wa_wind_mph data)" and
    v: "visibility (currentWeather w) = wa_vis_miles data" and
    p: "pressure (currentWeather w) = wa_pressure_mb data" and
    hw: "hourlyForecast w = map wa_hourly (take 24 (wd_hour day0))" and
    dw: "dailyForecast w = map_index wa_daily (wa_forecastday data)"
    by (auto simp: fetchWeatherAPI_def split: option.splits list.splits)
  have H: "list_all2 (\<lambda>hour h. nearest_integer (wh_temp_f hour) (h_temperature h) \<and>
                   h_precipitation h = wh_chance_of_rain hour)
        (take 24 (wd_hour day0)) (map wa_hourly (take 24 (wd_hour day0)))"
    by (simp add: list_all2_map2 list_all2_same wa_hourly_def nearest_integer_math_round)
  have "list_all2 (\<lambda>day d. \<exists>i. d = wa_daily day i) (wa_forecastday data)
          (map_index wa_daily (wa_forecastday data))"
    by (rule map_index_all2)
  then have D: "list_all2 (\<lambda>day d. nearest_integer (wd_maxtemp_f day) (highTemp d) \<and>
                   nearest_integer (wd_mintemp_f day) (lowTemp d) \<and>
                   d_precipitation d = wd_daily_chance_of_rain day)
        (wa_forecastday data) (map_index wa_daily (wa_forecastday data))"
    by (rule list_all2_mono) (auto simp: wa_daily_def nearest_integer_math_round)
  show ?thesis
    using a fd H D by (simp add: t fl ws v p hw dw nearest_integer_math_round)
qed



text \<open>
  The record the first adapter builds when every provider answers with the sample
  data: 10000 metres of visibility become 6.2 miles.
\<close>

lemma owm_all_up:
  "fetchOpenWeatherMap all_up lat lon =
     Some \<lparr>source = ''openweathermap'', location_name = ''Seattle, US'', latitude = lat,
           longitude = lon,
           currentWeather =
             \<lparr>temperature = 51, condition = ''Rain'', description = ''light rain'',
              humidity = 81, windSpeed = 7, windDirection = 200, visibility = 6.2,
              feelsLike = 50, uvIndex = 6, pressure = 1016\<rparr>,
           hourlyForecast = the (those (map owm_hourly (take 24 owm_seattle_forecast))),
           dailyForecast = the (those (map_index owm_daily (take 10 (every_8th owm_seattle_forecast))))\<rparr>"
  by (simp add: fetchOpenWeatherMap_def all_up_def owm_seattle_def owm_seattle_forecast_def
     owm_hourly_def owm_daily_def owm_slot_def owm_dry_slot_def map_index_def every_8th_def
     owm_rain_def math_round_def floor_eq_iff)



text \<open>
  The lengths of the forecast sequences. The first adapter slices both sequences; the
  other two take as many days as the provider sends.
\<close>

lemma forecast_lengths:
  "(fetchOpenWeatherMap net lat lon = Some w \<longrightarrow>
      length (hourlyForecast w) \<le> 24 \<and> length (dailyForecast w) \<le> 10) \<and>
   (fetchWeatherAPI net lat lon = Some w \<longrightarrow>
      length (hourlyForecast w) \<le> 24 \<and>
      (\<exists>data. weatherapi_forecast_api net lat lon = Some data \<and>
         length (dailyForecast w) = length (wa_forecastday data))) \<and>
   (fetchAccuWeather net lat lon = Some w \<longrightarrow>
      length (hourlyForecast w) = 0 \<and>
      (\<exists>key forecast. accu_daily_api net key = Some forecast \<and>
         length (dailyForecast w) = length forecast))"
proof -
  have "length (hourlyForecast w) \<le> 24 \<and> length (dailyForecast w) \<le> 10"
    if "fetchOpenWeatherMap net lat lon = Some w"
    using owm_rounding [OF that] by (auto dest!: list_all2_lengthD)
  moreover have "length (hourlyForecast w) \<le> 24 \<and>
      (\<exists>data. weatherapi_forecast_api net lat lon = Some data \<and>
         length (dailyForecast w) = length (wa_forecastday data))"
    if "fetchWeatherAPI net lat lon = Some w"
    using weatherapi_rounding [OF that] by (auto dest!: list_all2_lengthD)
  moreover have "length (hourlyForecast w) = 0 \<and>
      (\<exists>key forecast. accu_daily_api net key = Some forecast \<and>
         length (dailyForecast w) = length forecast)"
    if "fetchAccuWeather net lat lon = Some w"
    using that
    by (auto simp: fetchAccuWeather_def length_map_index
        split: option.splits list.splits prod.splits) blast
  ultimately show ?thesis by blast
qed


text \<open>
  C7. The daily sequence is not bounded by 10 for every provider response: the
  WeatherAPI adapter maps every entry of \<open>forecastday\<close> without slicing, so a response
  of eleven days gives a record of eleven daily points. (The OpenWeatherMap adapter
  slices its daily sequence to 10; the AccuWeather adapter, like the WeatherAPI one,
  does not.)
\<close>

theorem weatherapi_eleven_days:
  "map_option (length \<circ> dailyForecast) (fetchWeatherAPI eleven_days (Num 47.6062) (Num (-122.3321))) = Some 11"
proof -
  have r: "replicate 11 wa_sunday = wa_sunday # replicate 10 wa_sunday"
    using replicate_Suc [of 10 wa_sunday] by simp
  show ?thesis
    by (simp add: fetchWeatherAPI_def eleven_days_def all_up_def wa_seattle_def r length_map_index)
qed



section \<open>The Seattle scenario\<close>

text \<open>The records the other two adapters build from the sample data.\<close>

lemma wa_all_up:
  "fetchWeatherAPI all_up lat lon =
     Some \<lparr>source = ''weatherapi'', location_name = ''Seattle, United States of America'',
           latitude = lat, longitude = lon,
           currentWeather =
             \<lparr>temperature = 51, condition = ''Light rain'', description = ''Light rain'',
              humidity = 83, windSpeed = 7, windDirection = 190, visibility = 6.2,
              feelsLike = 49, uvIndex = 1, pressure = 1015\<rparr>,
           hourlyForecast = map wa_hourly [wa_noon, wa_noon],
           dailyForecast = map_index wa_daily [wa_sunday, wa_sunday]\<rparr>"
  by (simp add: fetchWeatherAPI_def all_up_def wa_seattle_def wa_sunday_def
      math_round_def floor_eq_iff)

lemma accu_all_up:
  "fetchAccuWeather all_up lat lon =
     Some \<lparr>source = ''accuweather'', location_name = ''Seattle, United States'',
           latitude = lat, longitude = lon,
           currentWeather =
             \<lparr>temperature = 52, condition = ''Rain'', description = ''Rain'',
              humidity = 80, windSpeed = 8, windDirection = 203, visibility = 6,
              feelsLike = 47, uvIndex = 1, pressure = 29.98\<rparr>,
           hourlyForecast = [],
           dailyForecast = map_index accu_daily [accu_sunday, accu_sunday]\<rparr>"
  by (simp add: fetchAccuWeather_def all_up_def accu_seattle_key_def accu_seattle_def
      math_round_def floor_eq_iff)


text \<open>The adapters on the networks where a provider is down.\<close>

lemma accuweather_down_results:
  "fetchOpenWeatherMap accuweather_down lat lon = fetchOpenWeatherMap all_up lat lon \<and>
   fetchWeatherAPI accuweather_down lat lon = fetchWeatherAPI all_up lat lon \<and>
   fetchAccuWeather accuweather_down lat lon = None"
  by (simp add: accuweather_down_def all_up_def fetchOpenWeatherMap_def fetchWeatherAPI_def
      fetchAccuWeather_def)

lemma openweathermap_down_results:
  "fetchOpenWeatherMap openweathermap_down lat lon = None \<and>
   fetchWeatherAPI openweathermap_down lat lon = fetchWeatherAPI all_up lat lon \<and>
   fetchAccuWeather openweathermap_down lat lon = fetchAccuWeather all_up lat lon"
  by (simp add: openweathermap_down_def all_up_def fetchOpenWeatherMap_def fetchWeatherAPI_def
      fetchAccuWeather_def)

lemma all_down_results:
  "fetchOpenWeatherMap all_down lat lon = None \<and>
   fetchWeatherAPI all_down lat lon = None \<and>
   fetchAccuWeather all_down lat lon = None"
  by (simp add: all_down_def fetchOpenWeatherMap_def fetchWeatherAPI_def fetchAccuWeather_def)

lemma aggregate_accuweather_down:
  "(case aggregate accuweather_down seattle of
      Ok p \<Rightarrow> map source (sources p) = [''openweathermap'', ''weatherapi''] \<and>
               map accuracy (sources p) = [JNumber 0.94, JNumber 0.87] \<and>
               source (mostAccurate p) = ''openweathermap''
    | Status code message \<Rightarrow> False)"
  by (simp add: aggregate_def successfulResults_def weatherSources_def map_filter_simps
      fetchWeatherFromSource_def accuweather_down_results owm_all_up wa_all_up
      with_accuracy_def weather.extend_def scored_weather.fields_def getWeatherAccuracy_known
      mostAccurate_of_def more_accurate_def)

text \<open>
  C1 on the scenario of the specification: the first two providers answer and the
  third fails. \<open>sources\<close> has the two records, in adapter order, and \<open>mostAccurate\<close>
  is the record of the first provider, whose score 0.94 is above 0.87.
\<close>

theorem aggregate_success_witness:
  "fetchWeatherFromSource accuweather_down ''accuweather'' seattle = None \<and>
   (case aggregate accuweather_down seattle of
      Ok p \<Rightarrow> map source (sources p) = [''openweathermap'', ''weatherapi''] \<and>
               map accuracy (sources p) = [JNumber 0.94, JNumber 0.87] \<and>
               source (mostAccurate p) = ''openweathermap''
    | Status code message \<Rightarrow> False)"
proof -
  have "fetchWeatherFromSource accuweather_down ''openweathermap'' seattle \<noteq> None"
    by (simp add: fetchWeatherFromSource_def accuweather_down_results owm_all_up)
  then have "\<exists>src \<in> set weatherSources. fetchWeatherFromSource accuweather_down src seattle \<noteq> None"
    by (simp add: weatherSources_def)
  from aggregate_success [OF this] obtain p where "aggregate accuweather_down seattle = Ok p"
    by blast
  moreover have "fetchWeatherFromSource accuweather_down ''accuweather'' seattle = None"
    by (simp add: fetchWeatherFromSource_def accuweather_down_results)
  ultimately show ?thesis using aggregate_accuweather_down by simp
qed

text \<open>
  C2 on the sample data: with every provider down the answer is 503, and with only the
  first provider down the answer is a success built from the other two.
\<close>

theorem aggregate_unavailable_witness:
  "aggregate all_down seattle = Status 503 ''Failed to fetch weather data from all sources'' \<and>
   fetchWeatherFromSource openweathermap_down ''openweathermap'' seattle = None \<and>
   (case aggregate openweathermap_down seattle of
      Ok p \<Rightarrow> map source (sources p) = [''weatherapi'', ''accuweather''] \<and>
               source (mostAccurate p) = ''accuweather''
    | Status code message \<Rightarrow> False)"
proof -
  have down: "\<forall>src \<in> set weatherSources. fetchWeatherFromSource all_down src seattle = None"
    by (simp add: weatherSources_def fetchWeatherFromSource_def all_down_results)
  have a: "aggregate all_down seattle = Status 503 ''Failed to fetch weather data from all sources''"
    using aggregate_unavailable [of all_down seattle] down
    by (simp add: aggregate_def)
  have b: "fetchWeatherFromSource openweathermap_down ''openweathermap'' seattle = None"
    by (simp add: fetchWeatherFromSource_def openweathermap_down_results)
  have c: "(case aggregate openweathermap_down seattle of
      Ok p \<Rightarrow> map source (sources p) = [''weatherapi'', ''accuweather''] \<and>
               source (mostAccurate p) = ''accuweather''
    | Status code message \<Rightarrow> False)"
    by (simp add: aggregate_def successfulResults_def weatherSources_def map_filter_simps
      fetchWeatherFromSource_def openweathermap_down_results accu_all_up wa_all_up
      with_accuracy_def weather.extend_def scored_weather.fields_def getWeatherAccuracy_known
      mostAccurate_of_def more_accurate_def)
  from a b c show ?thesis by simp
qed


end
